theory Spec2Isabelle
  imports Complex_Main
begin

section \<open>JavaScript values used by the transitions code\<close>

text \<open>
  A JavaScript number is a finite value, one of the two infinities, or NaN. Finite doubles
  are modelled by the reals they denote; rounding is not modelled (the code only compares
  numbers, takes minima and halves them). \<open>undefined\<close> is \<open>None\<close> of an option type.
\<close>

datatype jsnum = NaN | NegInf | Fin real | PosInf

text \<open>Truthiness of a number: \<open>0\<close>, \<open>-0\<close> and \<open>NaN\<close> are falsy.\<close>

fun truthy :: "jsnum \<Rightarrow> bool" where
  "truthy NaN = False"
| "truthy (Fin r) = (r \<noteq> 0)"
| "truthy NegInf = True"
| "truthy PosInf = True"

text \<open>\<open>x || d\<close> where \<open>x\<close> is a possibly absent number and \<open>d\<close> a number.\<close>

fun or_default :: "jsnum option \<Rightarrow> jsnum \<Rightarrow> jsnum" where
  "or_default None d = d"
| "or_default (Some n) d = (if truthy n then n else d)"

text \<open>\<open>Math.min(a, b)\<close>: NaN if either argument is NaN.\<close>

fun Math_min :: "jsnum \<Rightarrow> jsnum \<Rightarrow> jsnum" where
  "Math_min NaN b = NaN"
| "Math_min a NaN = NaN"
| "Math_min NegInf b = NegInf"
| "Math_min a NegInf = NegInf"
| "Math_min PosInf b = b"
| "Math_min a PosInf = a"
| "Math_min (Fin x) (Fin y) = Fin (min x y)"

text \<open>\<open>x / 2\<close>.\<close>

fun half :: "jsnum \<Rightarrow> jsnum" where
  "half (Fin x) = Fin (x / 2)"
| "half n = n"

text \<open>
  \<open>String.prototype.toUpperCase\<close> on ASCII text: the letters a to z are mapped to A to Z,
  every other character is kept. Identifiers of clips and transition types are ASCII.
\<close>

definition toUpperChar :: "char \<Rightarrow> char" where
  "toUpperChar c =
     (case map_of (zip ''abcdefghijklmnopqrstuvwxyz'' ''ABCDEFGHIJKLMNOPQRSTUVWXYZ'') c of
        None \<Rightarrow> c
      | Some u \<Rightarrow> u)"

definition toUpperCase :: "string \<Rightarrow> string" where
  "toUpperCase s = map toUpperChar s"

text \<open>
  A JavaScript \<open>Map\<close>: keys are unique and iteration follows the order of first insertion.
  \<open>set\<close> on a present key replaces the value in place, on an absent key appends.
\<close>

fun Map_set :: "('k \<times> 'v) list \<Rightarrow> 'k \<Rightarrow> 'v \<Rightarrow> ('k \<times> 'v) list" where
  "Map_set [] k v = [(k, v)]"
| "Map_set ((k', v') # m) k v =
     (if k' = k then (k, v) # m else (k', v') # Map_set m k v)"

definition Map_delete :: "('k \<times> 'v) list \<Rightarrow> 'k \<Rightarrow> ('k \<times> 'v) list" where
  "Map_delete m k = filter (\<lambda>e. fst e \<noteq> k) m"

definition Map_get :: "('k \<times> 'v) list \<Rightarrow> 'k \<Rightarrow> 'v option" where
  "Map_get m k = map_of m k"

definition Map_values :: "('k \<times> 'v) list \<Rightarrow> 'v list" where
  "Map_values m = map snd m"


section \<open>The catalog: \<open>TRANSITION_TYPES\<close>\<close>

text \<open>
  One entry of the catalog. The fields \<open>icon\<close> and \<open>description\<close> of the source are
  display text and are left out.
\<close>

record transition_type =
  type_id :: string
  type_name :: string
  category :: string
  defaultDuration :: real
  type_parameters :: "string list"

definition mk_type ::
  "string \<Rightarrow> string \<Rightarrow> string \<Rightarrow> real \<Rightarrow> string list \<Rightarrow> transition_type" where
  "mk_type i n c d ps =
     \<lparr>type_id = i, type_name = n, category = c, defaultDuration = d, type_parameters = ps\<rparr>"

text \<open>The object \<open>TRANSITION_TYPES\<close>, as its list of (key, value) pairs in source order.\<close>

definition TRANSITION_TYPES :: "(string \<times> transition_type) list" where
  "TRANSITION_TYPES =
    [(''CROSSFADE'', mk_type ''crossfade'' ''Crossfade'' ''fade'' 1.0 [''duration'']),
     (''FADE_TO_BLACK'', mk_type ''fadeToBlack'' ''Fade to Black'' ''fade'' 1.0 [''duration'']),
     (''FADE_TO_WHITE'', mk_type ''fadeToWhite'' ''Fade to White'' ''fade'' 1.0 [''duration'']),
     (''WIPE_LEFT'', mk_type ''wipeLeft'' ''Wipe Left'' ''wipe'' 0.8 [''duration'', ''softness'']),
     (''WIPE_RIGHT'', mk_type ''wipeRight'' ''Wipe Right'' ''wipe'' 0.8 [''duration'', ''softness'']),
     (''WIPE_UP'', mk_type ''wipeUp'' ''Wipe Up'' ''wipe'' 0.8 [''duration'', ''softness'']),
     (''WIPE_DOWN'', mk_type ''wipeDown'' ''Wipe Down'' ''wipe'' 0.8 [''duration'', ''softness'']),
     (''SLIDE_LEFT'', mk_type ''slideLeft'' ''Slide Left'' ''slide'' 0.7 [''duration'']),
     (''SLIDE_RIGHT'', mk_type ''slideRight'' ''Slide Right'' ''slide'' 0.7 [''duration'']),
     (''SLIDE_UP'', mk_type ''slideUp'' ''Slide Up'' ''slide'' 0.7 [''duration'']),
     (''SLIDE_DOWN'', mk_type ''slideDown'' ''Slide Down'' ''slide'' 0.7 [''duration'']),
     (''ZOOM_IN'', mk_type ''zoomIn'' ''Zoom In'' ''zoom'' 0.8 [''duration'']),
     (''ZOOM_OUT'', mk_type ''zoomOut'' ''Zoom Out'' ''zoom'' 0.8 [''duration'']),
     (''PIXELATE'', mk_type ''pixelate'' ''Pixelate'' ''effect'' 0.6 [''duration'', ''pixelSize'']),
     (''BLUR'', mk_type ''blur'' ''Blur'' ''effect'' 0.8 [''duration'', ''blurAmount'']),
     (''MIRROR'', mk_type ''mirror'' ''Mirror'' ''effect'' 0.7 [''duration'']),
     (''CIRCLE_OPEN'', mk_type ''circleOpen'' ''Circle Open'' ''shape'' 1.0 [''duration'']),
     (''CIRCLE_CLOSE'', mk_type ''circleClose'' ''Circle Close'' ''shape'' 1.0 [''duration'']),
     (''DIAMOND'', mk_type ''diamond'' ''Diamond'' ''shape'' 0.8 [''duration''])]"

text \<open>\<open>TRANSITION_TYPES[key]\<close>: the value under an own key, else \<open>undefined\<close>.\<close>

definition TRANSITION_TYPES_at :: "string \<Rightarrow> transition_type option" where
  "TRANSITION_TYPES_at key = map_of TRANSITION_TYPES key"

text \<open>\<open>Object.values(TRANSITION_TYPES).find(t => t.id === tId)\<close>, the lookup by id.\<close>

definition find_type_by_id :: "string \<Rightarrow> transition_type option" where
  "find_type_by_id tId = find (\<lambda>t. type_id t = tId) (map snd TRANSITION_TYPES)"

text \<open>The ids listed in the catalog.\<close>

definition catalog_ids :: "string list" where
  "catalog_ids = map (\<lambda>e. type_id (snd e)) TRANSITION_TYPES"


section \<open>\<open>TransitionManager\<close>: the in-memory graph\<close>

text \<open>
  An options object: its properties as an association list from names to numbers;
  \<open>options.duration\<close> is the value under \<open>duration\<close>, or \<open>undefined\<close>.
\<close>

type_synonym options = "(string \<times> jsnum) list"

definition options_duration :: "options \<Rightarrow> jsnum option" where
  "options_duration options = map_of options ''duration''"

text \<open>
  A transition instance. \<open>crypto.randomUUID()\<close> and \<open>Date.now()\<close> are inputs of the model
  (\<open>uuid\<close> and \<open>now\<close> arguments); \<open>parameters\<close> is \<open>None\<close> where the code builds the object
  without that property. The code never mutates an instance on the paths modelled here, so
  the object shared by the store's list and the manager's map is modelled by its value.
\<close>

record transition =
  tid :: nat
  fromClipId :: string
  toClipId :: string
  ttype :: string
  duration :: jsnum
  parameters :: "options option"
  createdAt :: nat

datatype error = UnknownTransitionType string | TypeError

text \<open>\<open>this.transitions\<close>: clip id to transition data.\<close>

type_synonym tmap = "(string \<times> transition) list"

definition addTransition ::
  "tmap \<Rightarrow> string \<Rightarrow> string \<Rightarrow> string \<Rightarrow> options \<Rightarrow> nat \<Rightarrow> nat \<Rightarrow> error + (transition \<times> tmap)" where
  "addTransition transitions fromId toId transitionType options uuid now =
     (case TRANSITION_TYPES_at (toUpperCase transitionType) of
        None \<Rightarrow> Inl (UnknownTransitionType transitionType)
      | Some ty \<Rightarrow>
          (let transitionData =
                 \<lparr>tid = uuid, fromClipId = fromId, toClipId = toId, ttype = transitionType,
                  duration = or_default (options_duration options) (Fin (defaultDuration ty)),
                  parameters = Some options, createdAt = now\<rparr>
           in Inr (transitionData,
                   Map_set (Map_set transitions fromId transitionData) toId transitionData)))"

definition removeTransition :: "tmap \<Rightarrow> string \<Rightarrow> bool \<times> tmap" where
  "removeTransition transitions clipId =
     (case Map_get transitions clipId of
        Some t \<Rightarrow> (True, Map_delete (Map_delete transitions (fromClipId t)) (toClipId t))
      | None \<Rightarrow> (False, transitions))"

definition getTransition :: "tmap \<Rightarrow> string \<Rightarrow> transition option" where
  "getTransition transitions clipId = Map_get transitions clipId"

definition exportTransitions :: "tmap \<Rightarrow> transition list" where
  "exportTransitions transitions = Map_values transitions"

text \<open>\<open>importTransitions\<close>: clear, then set both endpoint keys for each element in turn.\<close>

fun import_loop :: "tmap \<Rightarrow> transition list \<Rightarrow> tmap" where
  "import_loop m [] = m"
| "import_loop m (t # ts) = import_loop (Map_set (Map_set m (fromClipId t) t) (toClipId t) t) ts"

definition importTransitions :: "tmap \<Rightarrow> transition list \<Rightarrow> tmap" where
  "importTransitions transitions data = import_loop [] data"

text \<open>\<open>validateTransitionDuration\<close> on the two clips' durations.\<close>

definition validateTransitionDuration :: "jsnum \<Rightarrow> jsnum \<Rightarrow> jsnum \<Rightarrow> jsnum" where
  "validateTransitionDuration fromDuration toDuration d =
     (let maxDuration = half (Math_min fromDuration toDuration) in Math_min d maxDuration)"


section \<open>The external project store\<close>

text \<open>
  The host's store as the code reads it: \<open>store.project.tracks[i].clips[j]\<close> with \<open>id\<close> and
  \<open>duration\<close>, \<open>store.project.transitions\<close>, and the optional hooks \<open>saveNow\<close> and
  \<open>pushSnapshot\<close>. A property that may be absent is an option. A clip without a
  \<open>duration\<close> has \<open>clip_duration = NaN\<close>, which is what \<open>Math.min\<close> makes of \<open>undefined\<close>.
\<close>

record clip =
  clip_id :: string
  clip_duration :: jsnum

record track =
  clips :: "clip list option"

record project_data =
  tracks :: "track list option"
  transitions :: "transition list option"

record editor_store =
  project :: "project_data option"
  hasSaveNow :: bool
  hasPushSnapshot :: bool

text \<open>
  What the code does to the world outside its own data, in order: calls of the store's
  hooks, notifications shown, timers set, console output.
\<close>

datatype timer_action =
    RetrySaveTransitionToStore string string string "jsnum option"
  | RefreshAllBtns
  | InjectAndSyncFromStore

datatype effect =
    SaveNow
  | PushSnapshot
  | ShowNotification string string
  | SetTimeout nat timer_action
  | ConsoleOutput

definition store_hooks :: "editor_store \<Rightarrow> effect list" where
  "store_hooks st =
     (if hasSaveNow st then [SaveNow] else []) @ (if hasPushSnapshot st then [PushSnapshot] else [])"


section \<open>The inline picker's store helpers (\<open>transitions-integration.js\<close>, v2)\<close>

text \<open>\<open>store\<close> is what \<open>getStore()\<close> returns; \<open>manager\<close> is \<open>manager.transitions\<close>.\<close>

record integration =
  store :: "editor_store option"
  manager :: tmap

definition getStoredTransitions :: "integration \<Rightarrow> transition list" where
  "getStoredTransitions s =
     (case store s of
        None \<Rightarrow> []
      | Some st \<Rightarrow>
          (case project st of
             None \<Rightarrow> []
           | Some p \<Rightarrow> (case transitions p of None \<Rightarrow> [] | Some ts \<Rightarrow> ts)))"

definition getTransitionBetween :: "integration \<Rightarrow> string \<Rightarrow> string \<Rightarrow> transition option" where
  "getTransitionBetween s aId bId =
     find (\<lambda>t. fromClipId t = aId \<and> toClipId t = bId) (getStoredTransitions s)"

text \<open>The filter both helpers use: drop the instances on this pair, in either direction.\<close>

definition other_pairs :: "string \<Rightarrow> string \<Rightarrow> transition list \<Rightarrow> transition list" where
  "other_pairs fromId toId ts =
     filter (\<lambda>t. \<not> ((fromClipId t = fromId \<and> toClipId t = toId) \<or>
                      (fromClipId t = toId \<and> toClipId t = fromId))) ts"

text \<open>
  \<open>saveTransitionToStore\<close>. Without a store it sets a timer to call itself again and
  returns \<open>null\<close>. Reading \<open>store.project.transitions\<close> of a store without \<open>project\<close>
  raises a \<open>TypeError\<close>.
\<close>

definition saveTransitionToStore ::
  "integration \<Rightarrow> string \<Rightarrow> string \<Rightarrow> string \<Rightarrow> jsnum option \<Rightarrow> nat \<Rightarrow> nat
     \<Rightarrow> error + (transition option \<times> integration \<times> effect list)" where
  "saveTransitionToStore s fromId toId type d uuid now =
     (case store s of
        None \<Rightarrow>
          Inr (None, s,
               [ConsoleOutput, SetTimeout 500 (RetrySaveTransitionToStore fromId toId type d)])
      | Some st \<Rightarrow>
          (case project st of
             None \<Rightarrow> Inl TypeError
           | Some p \<Rightarrow>
               (let existing = (case transitions p of None \<Rightarrow> [] | Some ts \<Rightarrow> ts);
                    kept = other_pairs fromId toId existing;
                    t = \<lparr>tid = uuid, fromClipId = fromId, toClipId = toId, ttype = type,
                         duration = or_default d (Fin 1.0), parameters = None,
                         createdAt = now\<rparr>;
                    st' = st\<lparr>project := Some (p\<lparr>transitions := Some (kept @ [t])\<rparr>)\<rparr>
                in Inr (Some t,
                        \<lparr>store = Some st',
                         manager = Map_set (Map_set (manager s) fromId t) toId t\<rparr>,
                        store_hooks st @ [ConsoleOutput]))))"

definition removeTransitionFromStore ::
  "integration \<Rightarrow> string \<Rightarrow> string \<Rightarrow> integration \<times> effect list" where
  "removeTransitionFromStore s fromId toId =
     (case store s of
        None \<Rightarrow> (s, [])
      | Some st \<Rightarrow>
          (case project st of
             None \<Rightarrow> (s, [])
           | Some p \<Rightarrow>
               (case transitions p of
                  None \<Rightarrow> (s, [])
                | Some ts \<Rightarrow>
                    (\<lparr>store = Some (st\<lparr>project :=
                                 Some (p\<lparr>transitions := Some (other_pairs fromId toId ts)\<rparr>)\<rparr>),
                      manager = Map_delete (Map_delete (manager s) fromId) toId\<rparr>,
                     store_hooks st @ [ConsoleOutput]))))"


section \<open>\<open>TransitionsStoreMonitor\<close>: the queue and the poll\<close>

text \<open>A queued request: \<open>{ clipId, transitionType, options }\<close>.\<close>

type_synonym pending = "string \<times> string \<times> options option"

text \<open>
  The monitor and what it can see: the store that \<open>getEditorStore()\<close> finds, its queue, its
  last snapshot, the number of UUIDs drawn so far (the n-th call of \<open>crypto.randomUUID()\<close>
  yields \<open>n\<close>), the time \<open>Date.now()\<close> returns, and the log of effects.
\<close>

record monitor =
  editorStore :: "editor_store option"
  pendingTransitions :: "pending list"
  lastTrackSnapshot :: "string option"
  uuidCounter :: nat
  clock :: nat
  effects :: "effect list"

fun findIndex :: "('a \<Rightarrow> bool) \<Rightarrow> 'a list \<Rightarrow> nat option" where
  "findIndex P [] = None"
| "findIndex P (x # xs) = (if P x then Some 0 else map_option Suc (findIndex P xs))"

text \<open>The loop of \<open>findClipInProject\<close> over the tracks: clip, track and next clip.\<close>

fun find_in_tracks :: "string \<Rightarrow> track list \<Rightarrow> (clip \<times> track \<times> clip option) option" where
  "find_in_tracks clipId [] = None"
| "find_in_tracks clipId (t # ts) =
     (case clips t of
        None \<Rightarrow> find_in_tracks clipId ts
      | Some cs \<Rightarrow>
          (case findIndex (\<lambda>c. clip_id c = clipId) cs of
             None \<Rightarrow> find_in_tracks clipId ts
           | Some idx \<Rightarrow>
               Some (cs ! idx, t, if Suc idx < length cs then Some (cs ! Suc idx) else None)))"

definition findClipInProject :: "string \<Rightarrow> editor_store \<Rightarrow> (clip \<times> track \<times> clip option) option" where
  "findClipInProject clipId st =
     (case project st of
        None \<Rightarrow> None
      | Some p \<Rightarrow> (case tracks p of None \<Rightarrow> None | Some ts \<Rightarrow> find_in_tracks clipId ts))"

text \<open>The text of the success notification.\<close>

definition added_message :: "string \<Rightarrow> string" where
  "added_message transitionType =
     (case TRANSITION_TYPES_at (toUpperCase transitionType) of
        None \<Rightarrow> transitionType
      | Some ty \<Rightarrow> type_name ty) @ '' transition added!''"

text \<open>\<open>options?.duration\<close>.\<close>

definition requested_duration :: "options option \<Rightarrow> jsnum option" where
  "requested_duration opts = (case opts of None \<Rightarrow> None | Some os \<Rightarrow> options_duration os)"

text \<open>\<open>project.transitions\<close> of a store, empty when absent.\<close>

definition store_transitions :: "editor_store \<Rightarrow> transition list" where
  "store_transitions st =
     (case project st of
        None \<Rightarrow> []
      | Some p \<Rightarrow> (case transitions p of None \<Rightarrow> [] | Some ts \<Rightarrow> ts))"

text \<open>
  \<open>addTransitionToProject\<close> on the store, with the UUID counter and the time; it returns
  the store, the counter and the effects it had. When the clip is found the store has a
  \<open>project\<close>, so nothing in the \<open>try\<close> block raises and the \<open>catch\<close> branch is not
  reached (the hooks are taken not to raise).
\<close>

definition addTransitionToProject ::
  "string \<Rightarrow> string \<Rightarrow> options option \<Rightarrow> editor_store \<Rightarrow> nat \<Rightarrow> nat
     \<Rightarrow> editor_store \<times> nat \<times> effect list" where
  "addTransitionToProject clipId transitionType opts st uuids now =
     (case findClipInProject clipId st of
        None \<Rightarrow> (st, uuids, [ConsoleOutput])
      | Some (c, tr, None) \<Rightarrow>
          (st, uuids,
           [ConsoleOutput,
            ShowNotification ''Add another clip after this one to create a transition'' ''warning''])
      | Some (c, tr, Some nextClip) \<Rightarrow>
          (case project st of
             None \<Rightarrow> (st, uuids, [ConsoleOutput, ShowNotification ''Error adding transition'' ''error''])
           | Some p \<Rightarrow>
               (let maxDuration = half (Math_min (clip_duration c) (clip_duration nextClip));
                    d = Math_min (or_default (requested_duration opts) (Fin 1.0)) maxDuration;
                    existing = (case transitions p of None \<Rightarrow> [] | Some ts \<Rightarrow> ts);
                    kept = filter (\<lambda>t. \<not> (fromClipId t = clipId \<or> toClipId t = clipId)) existing;
                    t = \<lparr>tid = uuids, fromClipId = clipId, toClipId = clip_id nextClip,
                         ttype = transitionType, duration = d,
                         parameters = Some (case opts of None \<Rightarrow> [] | Some os \<Rightarrow> os),
                         createdAt = now\<rparr>
                in (st\<lparr>project := Some (p\<lparr>transitions := Some (kept @ [t])\<rparr>)\<rparr>,
                    Suc uuids,
                    store_hooks st @
                    [ConsoleOutput, ShowNotification (added_message transitionType) ''success'',
                     SetTimeout 100 RefreshAllBtns]))))"

text \<open>\<open>handleTransition\<close>: apply at once when the store is there, else queue.\<close>

definition handleTransition :: "monitor \<Rightarrow> string \<Rightarrow> string \<Rightarrow> options option \<Rightarrow> monitor" where
  "handleTransition w clipId transitionType opts =
     (case editorStore w of
        Some st \<Rightarrow>
          (case addTransitionToProject clipId transitionType opts st (uuidCounter w) (clock w) of
             (st', n, es) \<Rightarrow>
               w\<lparr>editorStore := Some st', uuidCounter := n, effects := effects w @ es\<rparr>)
      | None \<Rightarrow>
          w\<lparr>pendingTransitions := pendingTransitions w @ [(clipId, transitionType, opts)],
            effects := effects w @ [ConsoleOutput]\<rparr>)"

text \<open>
  The \<open>while\<close> loop of the poll: take the head of the queue (\<open>shift\<close>), apply it, go on
  with the rest.
\<close>

fun flush :: "pending list \<Rightarrow> editor_store \<Rightarrow> nat \<Rightarrow> nat \<Rightarrow> editor_store \<times> nat \<times> effect list" where
  "flush [] st uuids now = (st, uuids, [])"
| "flush ((clipId, transitionType, opts) # rest) st uuids now =
     (case addTransitionToProject clipId transitionType opts st uuids now of
        (st', n, es) \<Rightarrow>
          (case flush rest st' n now of (st'', n', es') \<Rightarrow> (st'', n', es @ es')))"

text \<open>
  \<open>JSON.stringify\<close> of an array of arrays of strings: quotes and backslashes are escaped,
  control characters are written as their short escape or as \<open>\u00XX\<close>.
\<close>

definition json_escape :: "char \<Rightarrow> string" where
  "json_escape c =
     (let n = (of_char c :: nat) in
      if n = 0x22 then [CHR 0x5C, CHR 0x22]
      else if n = 0x5C then [CHR 0x5C, CHR 0x5C]
      else if n = 0x08 then [CHR 0x5C, CHR ''b'']
      else if n = 0x0C then [CHR 0x5C, CHR ''f'']
      else if n = 0x0A then [CHR 0x5C, CHR ''n'']
      else if n = 0x0D then [CHR 0x5C, CHR ''r'']
      else if n = 0x09 then [CHR 0x5C, CHR ''t'']
      else if n < 0x20 then
        [CHR 0x5C, CHR ''u'', CHR ''0'', CHR ''0'',
         ''0123456789abcdef'' ! (n div 16), ''0123456789abcdef'' ! (n mod 16)]
      else [c])"

definition json_string :: "string \<Rightarrow> string" where
  "json_string s = [CHR 0x22] @ concat (map json_escape s) @ [CHR 0x22]"

fun json_commas :: "string list \<Rightarrow> string" where
  "json_commas [] = []"
| "json_commas [x] = x"
| "json_commas (x # y # ys) = x @ '','' @ json_commas (y # ys)"

definition json_array :: "string list \<Rightarrow> string" where
  "json_array items = ''['' @ json_commas items @ '']''"

definition JSON_stringify :: "string list list \<Rightarrow> string" where
  "JSON_stringify xss = json_array (map (\<lambda>xs. json_array (map json_string xs)) xss)"

text \<open>The snapshot of the poll: the clip ids of every track, in order, stringified.\<close>

definition track_snapshot :: "editor_store \<Rightarrow> string" where
  "track_snapshot st =
     JSON_stringify
       (map (\<lambda>t. map clip_id (case clips t of None \<Rightarrow> [] | Some cs \<Rightarrow> cs))
            (case project st of
               None \<Rightarrow> []
             | Some p \<Rightarrow> (case tracks p of None \<Rightarrow> [] | Some ts \<Rightarrow> ts)))"

text \<open>
  One tick of the poll set up by \<open>startMonitoring\<close>. The "topology changed" signal is the
  timer that runs \<open>inject\<close> and \<open>syncFromStore\<close>.
\<close>

definition pollTick :: "monitor \<Rightarrow> monitor" where
  "pollTick w =
     (case editorStore w of
        None \<Rightarrow> w
      | Some st \<Rightarrow>
          (case flush (pendingTransitions w) st (uuidCounter w) (clock w) of
             (st', n, es) \<Rightarrow>
               (let snapshot = track_snapshot st' in
                if Some snapshot \<noteq> lastTrackSnapshot w then
                  w\<lparr>editorStore := Some st', pendingTransitions := [], uuidCounter := n,
                    lastTrackSnapshot := Some snapshot,
                    effects := effects w @ es @ [SetTimeout 200 InjectAndSyncFromStore]\<rparr>
                else
                  w\<lparr>editorStore := Some st', pendingTransitions := [], uuidCounter := n,
                    effects := effects w @ es\<rparr>)))"


section \<open>The preview renderer\<close>

text \<open>
  The calls made on the 2D context, in order. The two gradients that stand for the clips
  are \<open>FromClip\<close> (\<open>gradient1\<close>) and \<open>ToClip\<close> (\<open>gradient2\<close>); \<open>Rgba r g b a\<close> is the colour
  string \<open>rgba(r, g, b, a)\<close>.
\<close>

datatype style = FromClip | ToClip | Rgba real real real real

datatype compop = SourceOver | DestinationIn

datatype cmd =
    ClearRect real real real real
  | CreateLinearGradient style real real real real
  | AddColorStop style real string
  | SetFillStyle style
  | FillRect real real real real
  | SetGlobalAlpha real
  | SetGlobalCompositeOperation compop
  | Save
  | Restore
  | Translate real real
  | Scale real real
  | BeginPath
  | Arc real real real real real
  | Fill

datatype canvas_error = IndexSizeError

text \<open>The crossfade drawing, which is also the \<open>default\<close> branch of the switch.\<close>

definition crossfade_cmds :: "real \<Rightarrow> real \<Rightarrow> real \<Rightarrow> style \<Rightarrow> style \<Rightarrow> cmd list" where
  "crossfade_cmds p width height fromStyle toStyle =
     [SetFillStyle fromStyle, FillRect 0 0 width height,
      SetGlobalAlpha p,
      SetFillStyle toStyle, FillRect 0 0 width height,
      SetGlobalAlpha 1]"

text \<open>
  \<open>applyTransitionEffect\<close>: the calls it makes and, when \<open>ctx.arc\<close> is given a negative
  radius, the \<open>IndexSizeError\<close> that call raises (the calls before it have been made).
\<close>

definition applyTransitionEffect ::
  "string \<Rightarrow> real \<Rightarrow> real \<Rightarrow> real \<Rightarrow> style \<Rightarrow> style \<Rightarrow> cmd list \<times> canvas_error option" where
  "applyTransitionEffect type progress width height fromStyle toStyle =
     (let p = max 0 (min 1 progress) in
      if type = ''crossfade'' then
        (crossfade_cmds p width height fromStyle toStyle, None)
      else if type = ''fadeToBlack'' then
        (if p < 0.5 then
           ([SetFillStyle fromStyle, FillRect 0 0 width height,
             SetFillStyle (Rgba 0 0 0 (p * 2)), FillRect 0 0 width height], None)
         else
           ([SetFillStyle toStyle, FillRect 0 0 width height,
             SetFillStyle (Rgba 0 0 0 ((1 - p) * 2)), FillRect 0 0 width height], None))
      else if type = ''fadeToWhite'' then
        (if p < 0.5 then
           ([SetFillStyle fromStyle, FillRect 0 0 width height,
             SetFillStyle (Rgba 255 255 255 (p * 2)), FillRect 0 0 width height], None)
         else
           ([SetFillStyle toStyle, FillRect 0 0 width height,
             SetFillStyle (Rgba 255 255 255 ((1 - p) * 2)), FillRect 0 0 width height], None))
      else if type = ''wipeLeft'' then
        ([SetFillStyle fromStyle, FillRect 0 0 width height,
          SetFillStyle toStyle, FillRect (width * (1 - p)) 0 (width * p) height], None)
      else if type = ''wipeRight'' then
        ([SetFillStyle fromStyle, FillRect 0 0 width height,
          SetFillStyle toStyle, FillRect 0 0 (width * p) height], None)
      else if type = ''wipeUp'' then
        ([SetFillStyle fromStyle, FillRect 0 0 width height,
          SetFillStyle toStyle, FillRect 0 (height * (1 - p)) width (height * p)], None)
      else if type = ''wipeDown'' then
        ([SetFillStyle fromStyle, FillRect 0 0 width height,
          SetFillStyle toStyle, FillRect 0 0 width (height * p)], None)
      else if type = ''slideLeft'' then
        ([Save, Translate (- width * p) 0,
          SetFillStyle fromStyle, FillRect 0 0 width height, Restore,
          Save, Translate (width * (1 - p)) 0,
          SetFillStyle toStyle, FillRect 0 0 width height, Restore], None)
      else if type = ''slideRight'' then
        ([Save, Translate (width * p) 0,
          SetFillStyle fromStyle, FillRect 0 0 width height, Restore,
          Save, Translate (- width * (1 - p)) 0,
          SetFillStyle toStyle, FillRect 0 0 width height, Restore], None)
      else if type = ''zoomIn'' then
        ([SetFillStyle fromStyle, FillRect 0 0 width height,
          Save, Translate (width / 2) (height / 2),
          Scale (0.1 + 0.9 * p) (0.1 + 0.9 * p),
          Translate (- width / 2) (- height / 2),
          SetGlobalAlpha p,
          SetFillStyle toStyle, FillRect 0 0 width height,
          Restore, SetGlobalAlpha 1], None)
      else if type = ''zoomOut'' then
        ([SetFillStyle toStyle, FillRect 0 0 width height,
          Save, Translate (width / 2) (height / 2),
          Scale (1 - 0.9 * p) (1 - 0.9 * p),
          Translate (- width / 2) (- height / 2),
          SetFillStyle fromStyle, FillRect 0 0 width height,
          Restore], None)
      else if type = ''circleOpen'' then
        (let before = [SetFillStyle fromStyle, FillRect 0 0 width height,
                       SetGlobalCompositeOperation DestinationIn, BeginPath];
             radius = max width height * p
         in if radius < 0 then (before, Some IndexSizeError)
            else (before @
                  [Arc (width / 2) (height / 2) radius 0 (pi * 2), Fill,
                   SetGlobalCompositeOperation SourceOver,
                   SetFillStyle toStyle, FillRect 0 0 width height], None))
      else if type = ''circleClose'' then
        (let before = [SetFillStyle toStyle, FillRect 0 0 width height,
                       SetGlobalCompositeOperation DestinationIn, BeginPath];
             radius = max width height * (1 - p)
         in if radius < 0 then (before, Some IndexSizeError)
            else (before @
                  [Arc (width / 2) (height / 2) radius 0 (pi * 2), Fill,
                   SetGlobalCompositeOperation SourceOver], None))
      else
        (crossfade_cmds p width height fromStyle toStyle, None))"

text \<open>
  \<open>renderTransitionPreview\<close> on a canvas of the given size (\<open>canvas.width\<close> and
  \<open>canvas.height\<close> are unsigned integers).
\<close>

definition renderTransitionPreview ::
  "string \<Rightarrow> real \<Rightarrow> nat \<Rightarrow> nat \<Rightarrow> cmd list \<times> canvas_error option" where
  "renderTransitionPreview transitionType progress width height =
     (let w = real width; h = real height;
          setup = [ClearRect 0 0 w h,
                   CreateLinearGradient FromClip 0 0 w h,
                   AddColorStop FromClip 0 ''#3b82f6'', AddColorStop FromClip 1 ''#1d4ed8'',
                   CreateLinearGradient ToClip 0 0 w h,
                   AddColorStop ToClip 0 ''#ef4444'', AddColorStop ToClip 1 ''#b91c1c'']
      in case applyTransitionEffect transitionType progress w h FromClip ToClip of
           (cs, e) \<Rightarrow> (setup @ cs, e))"

subsection \<open>What the calls paint at a point of the canvas\<close>

text \<open>
  The colour at a point is kept as three premultiplied shares: of the "from" clip, of the
  "to" clip, and of any other colour (the black or white of the fades). A transparent point
  has all three at 0; a point showing purely the "from" clip is \<open>(1, 0, 0)\<close>, purely the
  "to" clip \<open>(0, 1, 0)\<close>. Points are sampled exactly; anti-aliasing at edges is not modelled.
\<close>

type_synonym pix = "real \<times> real \<times> real"

definition pure_from :: pix where "pure_from = (1, 0, 0)"
definition pure_to :: pix where "pure_to = (0, 1, 0)"

text \<open>The drawing state that \<open>save\<close> and \<open>restore\<close> keep; \<open>ctm\<close> is a scale and an offset per axis.\<close>

record gstate =
  fillStyle :: style
  globalAlpha :: real
  globalCompositeOperation :: compop
  ctm :: "real \<times> real \<times> real \<times> real"

record canvas =
  cur :: gstate
  saved :: "gstate list"
  path :: "((real \<times> real \<times> real \<times> real) \<times> real \<times> real \<times> real) list"
  pixel :: pix

definition initial_canvas :: canvas where
  "initial_canvas =
     \<lparr>cur = \<lparr>fillStyle = Rgba 0 0 0 1, globalAlpha = 1,
             globalCompositeOperation = SourceOver, ctm = (1, 1, 0, 0)\<rparr>,
      saved = [], path = [], pixel = (0, 0, 0)\<rparr>"

text \<open>
  Whether a rectangle, or a disc of the path, drawn under the transform \<open>m\<close> covers the
  canvas point \<open>pt\<close>: the point is mapped back to user space and tested there. A shape of
  zero width or height, or one drawn under a transform that is not invertible, covers nothing.
\<close>

definition in_rect ::
  "real \<times> real \<times> real \<times> real \<Rightarrow> real \<Rightarrow> real \<Rightarrow> real \<Rightarrow> real \<Rightarrow> real \<times> real \<Rightarrow> bool" where
  "in_rect m x y w h pt =
     (case m of (a, d, e, f) \<Rightarrow>
        a \<noteq> 0 \<and> d \<noteq> 0 \<and> w \<noteq> 0 \<and> h \<noteq> 0 \<and>
        min x (x + w) \<le> (fst pt - e) / a \<and> (fst pt - e) / a < max x (x + w) \<and>
        min y (y + h) \<le> (snd pt - f) / d \<and> (snd pt - f) / d < max y (y + h))"

definition in_disc ::
  "(real \<times> real \<times> real \<times> real) \<times> real \<times> real \<times> real \<Rightarrow> real \<times> real \<Rightarrow> bool" where
  "in_disc c pt =
     (case c of ((a, d, e, f), cx, cy, r) \<Rightarrow>
        a \<noteq> 0 \<and> d \<noteq> 0 \<and>
        ((fst pt - e) / a - cx)\<^sup>2 + ((snd pt - f) / d - cy)\<^sup>2 < r\<^sup>2)"

definition style_alpha :: "style \<Rightarrow> real" where
  "style_alpha s = (case s of Rgba r g b a \<Rightarrow> max 0 (min 1 a) | _ \<Rightarrow> 1)"

definition style_pix :: "style \<Rightarrow> pix" where
  "style_pix s = (case s of FromClip \<Rightarrow> (1, 0, 0) | ToClip \<Rightarrow> (0, 1, 0) | Rgba r g b a \<Rightarrow> (0, 0, 1))"

definition scale_pix :: "real \<Rightarrow> pix \<Rightarrow> pix" where
  "scale_pix k px = (case px of (f, t, o1) \<Rightarrow> (k * f, k * t, k * o1))"

definition add_pix :: "pix \<Rightarrow> pix \<Rightarrow> pix" where
  "add_pix px qx = (case px of (f, t, o1) \<Rightarrow> (case qx of (f', t', o') \<Rightarrow> (f + f', t + t', o1 + o')))"

text \<open>
  Painting a shape with the current fill style: \<open>source-over\<close> lays the source over the
  point where the shape covers it; \<open>destination-in\<close> keeps what is there in proportion to
  the source's alpha, and clears the point where the shape does not cover it.
\<close>

definition paint :: "gstate \<Rightarrow> bool \<Rightarrow> pix \<Rightarrow> pix" where
  "paint g covered px =
     (let al = style_alpha (fillStyle g) * globalAlpha g in
      case globalCompositeOperation g of
        SourceOver \<Rightarrow>
          (if covered then add_pix (scale_pix al (style_pix (fillStyle g))) (scale_pix (1 - al) px)
           else px)
      | DestinationIn \<Rightarrow> (if covered then scale_pix al px else (0, 0, 0)))"

text \<open>
  One call, seen from the point \<open>pt\<close>. An arc that is not a full circle is outside what is
  modelled: the result is \<open>None\<close>.
\<close>

fun exec :: "real \<times> real \<Rightarrow> cmd \<Rightarrow> canvas \<Rightarrow> canvas option" where
  "exec pt (ClearRect x y w h) c =
     Some (if in_rect (ctm (cur c)) x y w h pt then c\<lparr>pixel := (0, 0, 0)\<rparr> else c)"
| "exec pt (CreateLinearGradient s x0 y0 x1 y1) c = Some c"
| "exec pt (AddColorStop s off col) c = Some c"
| "exec pt (SetFillStyle s) c = Some (c\<lparr>cur := (cur c)\<lparr>fillStyle := s\<rparr>\<rparr>)"
| "exec pt (FillRect x y w h) c =
     Some (c\<lparr>pixel := paint (cur c) (in_rect (ctm (cur c)) x y w h pt) (pixel c)\<rparr>)"
| "exec pt (SetGlobalAlpha a) c =
     Some (if 0 \<le> a \<and> a \<le> 1 then c\<lparr>cur := (cur c)\<lparr>globalAlpha := a\<rparr>\<rparr> else c)"
| "exec pt (SetGlobalCompositeOperation op) c =
     Some (c\<lparr>cur := (cur c)\<lparr>globalCompositeOperation := op\<rparr>\<rparr>)"
| "exec pt Save c = Some (c\<lparr>saved := cur c # saved c\<rparr>)"
| "exec pt Restore c =
     Some (case saved c of [] \<Rightarrow> c | g # gs \<Rightarrow> c\<lparr>cur := g, saved := gs\<rparr>)"
| "exec pt (Translate dx dy) c =
     Some (case ctm (cur c) of (a, d, e, f) \<Rightarrow>
             c\<lparr>cur := (cur c)\<lparr>ctm := (a, d, e + a * dx, f + d * dy)\<rparr>\<rparr>)"
| "exec pt (Scale sx sy) c =
     Some (case ctm (cur c) of (a, d, e, f) \<Rightarrow>
             c\<lparr>cur := (cur c)\<lparr>ctm := (a * sx, d * sy, e, f)\<rparr>\<rparr>)"
| "exec pt BeginPath c = Some (c\<lparr>path := []\<rparr>)"
| "exec pt (Arc cx cy r a0 a1) c =
     (if r \<ge> 0 \<and> a1 - a0 \<ge> 2 * pi then Some (c\<lparr>path := path c @ [(ctm (cur c), cx, cy, r)]\<rparr>)
      else None)"
| "exec pt Fill c =
     Some (c\<lparr>pixel := paint (cur c) (list_ex (\<lambda>d. in_disc d pt) (path c)) (pixel c)\<rparr>)"

fun run :: "real \<times> real \<Rightarrow> cmd list \<Rightarrow> canvas \<Rightarrow> canvas option" where
  "run pt [] c = Some c"
| "run pt (x # xs) c = (case exec pt x c of None \<Rightarrow> None | Some c' \<Rightarrow> run pt xs c')"

text \<open>The colour at \<open>pt\<close> after the calls of a preview, on a canvas in its initial state.\<close>

definition painted :: "cmd list \<times> canvas_error option \<Rightarrow> real \<times> real \<Rightarrow> pix option" where
  "painted r pt = map_option pixel (run pt (fst r) initial_canvas)"


section \<open>Sequences of calls and the shapes of states\<close>

text \<open>The calls that add to or remove from the graph, on the manager and on the store.\<close>

datatype graph_op =
    AddTransition string string string options nat nat
  | RemoveTransition string
  | SaveTransitionToStore string string string "jsnum option" nat nat
  | RemoveTransitionFromStore string string

text \<open>One call; a call that raises leaves the state as it was.\<close>

fun step :: "integration \<Rightarrow> graph_op \<Rightarrow> integration" where
  "step s (AddTransition fromId toId ty opts uuid now) =
     (case addTransition (manager s) fromId toId ty opts uuid now of
        Inl e \<Rightarrow> s
      | Inr (t, m) \<Rightarrow> s\<lparr>manager := m\<rparr>)"
| "step s (RemoveTransition clipId) = s\<lparr>manager := snd (removeTransition (manager s) clipId)\<rparr>"
| "step s (SaveTransitionToStore fromId toId ty d uuid now) =
     (case saveTransitionToStore s fromId toId ty d uuid now of
        Inl e \<Rightarrow> s
      | Inr (r, s', es) \<Rightarrow> s')"
| "step s (RemoveTransitionFromStore fromId toId) = fst (removeTransitionFromStore s fromId toId)"

definition run_ops :: "integration \<Rightarrow> graph_op list \<Rightarrow> integration" where
  "run_ops s ops = foldl step s ops"

text \<open>The unordered endpoint pair of an instance.\<close>

definition endpoints :: "transition \<Rightarrow> string set" where
  "endpoints t = {fromClipId t, toClipId t}"

text \<open>The instances held by the manager's map, each once.\<close>

definition instances :: "tmap \<Rightarrow> transition list" where
  "instances m = remdups (Map_values m)"

text \<open>No two instances of a list share their unordered endpoint pair.\<close>

definition unique_pairs :: "transition list \<Rightarrow> bool" where
  "unique_pairs ts = distinct (map endpoints ts)"

text \<open>A store with one track of the given clips, no transitions list and no hooks.\<close>

definition single_track_store :: "clip list \<Rightarrow> editor_store" where
  "single_track_store cs =
     \<lparr>project = Some \<lparr>tracks = Some [\<lparr>clips = Some cs\<rparr>], transitions = None\<rparr>,
      hasSaveNow = False, hasPushSnapshot = False\<rparr>"

text \<open>The picker's state with an empty manager.\<close>

definition empty_graph :: "editor_store option \<Rightarrow> integration" where
  "empty_graph st = \<lparr>store = st, manager = []\<rparr>"

text \<open>The monitor as its constructor leaves it, before a store can be found.\<close>

definition new_monitor :: monitor where
  "new_monitor =
     \<lparr>editorStore = None, pendingTransitions = [], lastTrackSnapshot = None,
      uuidCounter = 0, clock = 0, effects = []\<rparr>"

text \<open>What identifies an instance to a reader of the list: its endpoints and its type.\<close>

definition edge :: "transition \<Rightarrow> string \<times> string \<times> string" where
  "edge t = (fromClipId t, toClipId t, ttype t)"


text \<open>
  A well-formed map of the manager: keys are unique, every key is an endpoint of the
  instance stored under it, and the instances in the map differ in their endpoint pairs.
\<close>

definition graph_ok :: "tmap \<Rightarrow> bool" where
  "graph_ok m \<longleftrightarrow>
     distinct (map fst m) \<and>
     (\<forall>e \<in> set m. fst e \<in> endpoints (snd e)) \<and>
     inj_on endpoints (snd ` set m)"

definition state_ok :: "integration \<Rightarrow> bool" where
  "state_ok s \<longleftrightarrow> graph_ok (manager s) \<and> unique_pairs (getStoredTransitions s)"


section \<open>Type resolution in \<open>addTransition\<close>\<close>

lemma toUpperCase_wipeLeft: "toUpperCase ''wipeLeft'' = ''WIPELEFT''"
  by (simp add: toUpperCase_def toUpperChar_def)

lemma toUpperCase_fadeToBlack: "toUpperCase ''fadeToBlack'' = ''FADETOBLACK''"
  by (simp add: toUpperCase_def toUpperChar_def)

text \<open>
  C2. The claim: \<open>add\<close> fails with \<open>UnknownType\<close> exactly when the type id does not resolve in
  the catalog, and succeeds for every id listed in \<open>TRANSITION_TYPES\<close>, \<open>wipeLeft\<close> and
  \<open>fadeToBlack\<close> among them. The code looks the type up under the key
  \<open>transitionType.toUpperCase()\<close>; the keys of the multi-word types contain underscores
  (\<open>WIPE_LEFT\<close>, \<open>FADE_TO_BLACK\<close>), so for the listed ids \<open>wipeLeft\<close> and \<open>fadeToBlack\<close> the
  lookup finds nothing and \<open>addTransition\<close> raises, on every graph and with every option.
  The lookup by id that the pickers use, \<open>find(t => t.id === tId)\<close>, resolves both.
\<close>

theorem addTransition_rejects_listed_ids:
  "addTransition m a b ''wipeLeft'' opts uuid now = Inl (UnknownTransitionType ''wipeLeft'') \<and>
   addTransition m a b ''fadeToBlack'' opts uuid now = Inl (UnknownTransitionType ''fadeToBlack'') \<and>
   ''wipeLeft'' \<in> set catalog_ids \<and> ''fadeToBlack'' \<in> set catalog_ids \<and>
   map_option type_name (find_type_by_id ''wipeLeft'') = Some ''Wipe Left'' \<and>
   map_option type_name (find_type_by_id ''fadeToBlack'') = Some ''Fade to Black''"
  by (simp add: addTransition_def TRANSITION_TYPES_at_def TRANSITION_TYPES_def
      toUpperCase_wipeLeft toUpperCase_fadeToBlack catalog_ids_def find_type_by_id_def
      mk_type_def)


section \<open>The preview takes every progress value\<close>

lemma radius_open_nonneg: "\<not> max (real w) (real h) * max 0 (min 1 p) < 0"
  by (simp add: not_less)

lemma radius_close_nonneg: "\<not> max (real w) (real h) * (1 - max 0 (min 1 p)) < 0"
  by (simp add: not_less)

lemma applyTransitionEffect_no_raise:
  "snd (applyTransitionEffect ty p (real w) (real h) f t) = None"
  unfolding applyTransitionEffect_def Let_def
  using radius_open_nonneg [of w h p] radius_close_nonneg [of w h p]
  by (simp del: max_less_iff_conj)

lemma clamp_idem: "max 0 (min 1 (max 0 (min 1 (p::real)))) = max 0 (min 1 p)"
  by simp

text \<open>
  C10. For every type string and every real progress value, also below 0 and above 1,
  \<open>renderTransitionPreview\<close> makes exactly the calls it makes for the progress clamped to
  \<open>[0, 1]\<close>, and it does not raise: an unknown type takes the \<open>default\<close> branch, and the
  radius given to \<open>arc\<close> is never negative on a canvas.
\<close>

theorem renderTransitionPreview_total_and_clamped:
  "renderTransitionPreview ty p w h = renderTransitionPreview ty (max 0 (min 1 p)) w h \<and>
   snd (renderTransitionPreview ty p w h) = None"
proof
  show "renderTransitionPreview ty p w h = renderTransitionPreview ty (max 0 (min 1 p)) w h"
    unfolding renderTransitionPreview_def applyTransitionEffect_def clamp_idem ..
  show "snd (renderTransitionPreview ty p w h) = None"
    using applyTransitionEffect_no_raise [of ty p w h FromClip ToClip]
    by (simp add: renderTransitionPreview_def Let_def case_prod_beta)
qed


section \<open>What the preview shows at progress 0 and 1\<close>

lemmas paint_defs =
  painted_def renderTransitionPreview_def applyTransitionEffect_def initial_canvas_def
  paint_def in_rect_def in_disc_def style_alpha_def style_pix_def scale_pix_def add_pix_def
  pure_to_def pure_from_def crossfade_cmds_def

text \<open>
  For every type string other than \<open>zoomOut\<close>, \<open>circleOpen\<close> and \<open>circleClose\<close> (the other
  sixteen catalog types among them), every point of a canvas shows purely the "from" clip at
  progress 0 and purely the "to" clip at progress 1.
\<close>

lemma preview_start_pure:
  assumes pt: "0 \<le> x" "x < real w" "0 \<le> y" "y < real h"
    and ty: "ty \<noteq> ''zoomOut''" "ty \<noteq> ''circleOpen''" "ty \<noteq> ''circleClose''"
  shows "painted (renderTransitionPreview ty 0 w h) (x, y) = Some pure_from"
proof -
  consider "ty = ''crossfade''" | "ty = ''fadeToBlack''" | "ty = ''fadeToWhite''" | "ty = ''wipeLeft''" | "ty = ''wipeRight''" | "ty = ''wipeUp''" | "ty = ''wipeDown''" | "ty = ''slideLeft''" | "ty = ''slideRight''" | "ty = ''zoomIn''"
    | (other) "ty \<noteq> ''crossfade''" "ty \<noteq> ''fadeToBlack''" "ty \<noteq> ''fadeToWhite''" "ty \<noteq> ''wipeLeft''" "ty \<noteq> ''wipeRight''" "ty \<noteq> ''wipeUp''" "ty \<noteq> ''wipeDown''" "ty \<noteq> ''slideLeft''" "ty \<noteq> ''slideRight''" "ty \<noteq> ''zoomIn''"
    by blast
  then show ?thesis
  proof cases
    case 1
    then show ?thesis using pt by (simp add: paint_defs Let_def)
  next
    case 2
    then show ?thesis using pt by (simp add: paint_defs Let_def)
  next
    case 3
    then show ?thesis using pt by (simp add: paint_defs Let_def)
  next
    case 4
    then show ?thesis using pt by (simp add: paint_defs Let_def)
  next
    case 5
    then show ?thesis using pt by (simp add: paint_defs Let_def)
  next
    case 6
    then show ?thesis using pt by (simp add: paint_defs Let_def)
  next
    case 7
    then show ?thesis using pt by (simp add: paint_defs Let_def)
  next
    case 8
    then show ?thesis using pt by (simp add: paint_defs Let_def)
  next
    case 9
    then show ?thesis using pt by (simp add: paint_defs Let_def)
  next
    case 10
    then show ?thesis using pt by (simp add: paint_defs Let_def)
  next
    case other
    then show ?thesis using pt ty by (simp add: paint_defs Let_def)
  qed
qed

lemma preview_end_pure:
  assumes pt: "0 \<le> x" "x < real w" "0 \<le> y" "y < real h"
    and ty: "ty \<noteq> ''zoomOut''" "ty \<noteq> ''circleOpen''" "ty \<noteq> ''circleClose''"
  shows "painted (renderTransitionPreview ty 1 w h) (x, y) = Some pure_to"
proof -
  consider "ty = ''crossfade''" | "ty = ''fadeToBlack''" | "ty = ''fadeToWhite''" | "ty = ''wipeLeft''" | "ty = ''wipeRight''" | "ty = ''wipeUp''" | "ty = ''wipeDown''" | "ty = ''slideLeft''" | "ty = ''slideRight''" | "ty = ''zoomIn''"
    | (other) "ty \<noteq> ''crossfade''" "ty \<noteq> ''fadeToBlack''" "ty \<noteq> ''fadeToWhite''" "ty \<noteq> ''wipeLeft''" "ty \<noteq> ''wipeRight''" "ty \<noteq> ''wipeUp''" "ty \<noteq> ''wipeDown''" "ty \<noteq> ''slideLeft''" "ty \<noteq> ''slideRight''" "ty \<noteq> ''zoomIn''"
    by blast
  then show ?thesis
  proof cases
    case 1
    then show ?thesis using pt by (simp add: paint_defs Let_def)
  next
    case 2
    then show ?thesis using pt by (simp add: paint_defs Let_def)
  next
    case 3
    then show ?thesis using pt by (simp add: paint_defs Let_def)
  next
    case 4
    then show ?thesis using pt by (simp add: paint_defs Let_def)
  next
    case 5
    then show ?thesis using pt by (simp add: paint_defs Let_def)
  next
    case 6
    then show ?thesis using pt by (simp add: paint_defs Let_def)
  next
    case 7
    then show ?thesis using pt by (simp add: paint_defs Let_def)
  next
    case 8
    then show ?thesis using pt by (simp add: paint_defs Let_def)
  next
    case 9
    then show ?thesis using pt by (simp add: paint_defs Let_def)
  next
    case 10
    then show ?thesis using pt by (simp add: paint_defs Let_def)
  next
    case other
    then show ?thesis using pt ty by (simp add: paint_defs Let_def)
  qed
qed

text \<open>
  C3. The claim: for every catalog type and every surface size, the preview at progress 0
  is purely the "from" region and at progress 1 purely the "to" region. Three catalog types
  break it. \<open>circleOpen\<close> ends with a \<open>source-over\<close> fill of the whole canvas in the "to"
  style, so at progress 0 (as at every progress) a point shows purely "to". \<open>circleClose\<close>
  only ever draws the "to" clip inside its circle: purely "to" at progress 0, nothing at all
  at progress 1. \<open>zoomOut\<close> draws the "from" clip at a tenth of its size over the "to" clip
  at progress 1, so the centre still shows "from". Evaluated on a 100 by 50 canvas:
\<close>

theorem preview_endpoints_not_pure:
  "painted (renderTransitionPreview ''circleOpen'' 0 100 50) (10, 10) = Some pure_to \<and>
   painted (renderTransitionPreview ''circleClose'' 0 100 50) (10, 10) = Some pure_to \<and>
   painted (renderTransitionPreview ''circleClose'' 1 100 50) (10, 10) = Some (0, 0, 0) \<and>
   painted (renderTransitionPreview ''zoomOut'' 1 100 50) (50, 25) = Some pure_from \<and>
   pure_to \<noteq> pure_from \<and>
   set [''circleOpen'', ''circleClose'', ''zoomOut''] \<subseteq> set catalog_ids"
proof -
  have a: "painted (renderTransitionPreview ''circleOpen'' 0 100 50) (10, 10) = Some pure_to"
    by (simp add: paint_defs)
  have b: "painted (renderTransitionPreview ''circleClose'' 0 100 50) (10, 10) = Some pure_to"
    by (simp add: paint_defs)
  have c: "painted (renderTransitionPreview ''circleClose'' 1 100 50) (10, 10) = Some (0, 0, 0)"
    by (simp add: paint_defs)
  have d: "painted (renderTransitionPreview ''zoomOut'' 1 100 50) (50, 25) = Some pure_from"
    by (simp add: paint_defs)
  have e: "pure_to \<noteq> pure_from"
    by (simp add: pure_to_def pure_from_def)
  have f: "set [''circleOpen'', ''circleClose'', ''zoomOut''] \<subseteq> set catalog_ids"
    by (simp add: catalog_ids_def TRANSITION_TYPES_def mk_type_def)
  show ?thesis using a b c d e f by blast
qed


section \<open>The manager's map and the store's list\<close>

lemma Map_get_set: "Map_get (Map_set m k v) k' = (if k' = k then Some v else Map_get m k')"
  by (induction m) (auto simp: Map_get_def)

lemma Map_set_keys: "fst ` set (Map_set m k v) = insert k (fst ` set m)"
proof (induction m)
  case Nil
  show ?case by simp
next
  case (Cons e m)
  obtain k' v' where e: "e = (k', v')" by (cases e)
  show ?case
  proof (cases "k' = k")
    case True
    then show ?thesis by (simp add: e)
  next
    case False
    then show ?thesis by (simp add: e Cons.IH insert_commute)
  qed
qed

lemma Map_set_distinct: "distinct (map fst m) \<Longrightarrow> distinct (map fst (Map_set m k v))"
proof (induction m)
  case Nil
  then show ?case by simp
next
  case (Cons e m)
  obtain k' v' where e: "e = (k', v')" by (cases e)
  show ?case
  proof (cases "k' = k")
    case True
    then show ?thesis using Cons.prems by (simp add: e)
  next
    case False
    then show ?thesis using Cons Map_set_keys [of m k v] by (simp add: e)
  qed
qed

lemma Map_set_entries:
  "distinct (map fst m) \<Longrightarrow> set (Map_set m k v) = insert (k, v) {e \<in> set m. fst e \<noteq> k}"
proof (induction m)
  case Nil
  then show ?case by simp
next
  case (Cons e m)
  obtain k' v' where e: "e = (k', v')" by (cases e)
  have IH: "set (Map_set m k v) = insert (k, v) {e \<in> set m. fst e \<noteq> k}"
    using Cons by simp
  show ?case
  proof (cases "k' = k")
    case True
    have "k \<notin> fst ` set m" using Cons.prems e True by simp
    then have "{x \<in> set m. fst x \<noteq> k} = set m" by force
    moreover have "{x \<in> set (e # m). fst x \<noteq> k} = {x \<in> set m. fst x \<noteq> k}"
      using True e by force
    moreover have "set (Map_set (e # m) k v) = insert (k, v) (set m)"
      using True e by simp
    ultimately show ?thesis by simp
  next
    case False
    have "{x \<in> set (e # m). fst x \<noteq> k} = insert e {x \<in> set m. fst x \<noteq> k}"
      using False e by force
    moreover have "set (Map_set (e # m) k v) = insert e (set (Map_set m k v))"
      using False e by simp
    ultimately show ?thesis using IH by (simp add: insert_commute)
  qed
qed

lemma Map_delete_entries: "set (Map_delete m k) = {e \<in> set m. fst e \<noteq> k}"
  by (auto simp: Map_delete_def)

lemma Map_delete_distinct: "distinct (map fst m) \<Longrightarrow> distinct (map fst (Map_delete m k))"
  by (simp add: Map_delete_def distinct_map_filter)

lemma graph_ok_empty: "graph_ok []"
  by (simp add: graph_ok_def)

lemma graph_ok_subset:
  assumes "graph_ok m" "distinct (map fst m')" "set m' \<subseteq> set m"
  shows "graph_ok m'"
proof -
  have "snd ` set m' \<subseteq> snd ` set m" using assms(3) by blast
  then have "inj_on endpoints (snd ` set m')"
    using assms(1) inj_on_subset unfolding graph_ok_def by blast
  then show ?thesis using assms unfolding graph_ok_def by blast
qed

lemma graph_ok_delete: "graph_ok m \<Longrightarrow> graph_ok (Map_delete m k)"
  by (rule graph_ok_subset [of m])
     (auto simp: Map_delete_entries Map_delete_distinct graph_ok_def)

lemma graph_ok_set_both:
  assumes ok: "graph_ok m" and ends: "endpoints N = {a, b}"
  shows "graph_ok (Map_set (Map_set m a N) b N)"
proof -
  let ?m1 = "Map_set m a N"
  let ?m2 = "Map_set ?m1 b N"
  have d0: "distinct (map fst m)" using ok by (simp add: graph_ok_def)
  have d1: "distinct (map fst ?m1)" using d0 by (rule Map_set_distinct)
  have d2: "distinct (map fst ?m2)" using d1 by (rule Map_set_distinct)
  have s1: "set ?m1 = insert (a, N) {e \<in> set m. fst e \<noteq> a}"
    using d0 by (rule Map_set_entries)
  have s2: "set ?m2 = insert (b, N) {e \<in> set ?m1. fst e \<noteq> b}"
    using d1 by (rule Map_set_entries)
  have sub: "set ?m2 \<subseteq> {(a, N), (b, N)} \<union> {e \<in> set m. fst e \<noteq> a \<and> fst e \<noteq> b}"
    unfolding s2 s1 by auto
  have keys: "\<forall>e \<in> set ?m2. fst e \<in> endpoints (snd e)"
  proof
    fix e assume "e \<in> set ?m2"
    then consider "e = (a, N)" | "e = (b, N)" | "e \<in> set m" using sub by auto
    then show "fst e \<in> endpoints (snd e)"
    proof cases
      case 1 then show ?thesis using ends by simp
    next
      case 2 then show ?thesis using ends by simp
    next
      case 3 then show ?thesis using ok by (simp add: graph_ok_def)
    qed
  qed
  have old: "v = N \<or> (endpoints v \<noteq> {a, b} \<and> v \<in> snd ` set m)" if "v \<in> snd ` set ?m2" for v
  proof -
    from that obtain k where kv: "(k, v) \<in> set ?m2" by force
    then consider "v = N" | "(k, v) \<in> set m" "k \<noteq> a" "k \<noteq> b" using sub by auto
    then show ?thesis
    proof cases
      case 1 then show ?thesis by simp
    next
      case 2
      have "k \<in> endpoints v" using ok 2(1) by (force simp: graph_ok_def)
      then have "endpoints v \<noteq> {a, b}" using 2(2,3) by auto
      moreover have "v \<in> snd ` set m" using 2(1) by force
      ultimately show ?thesis by simp
    qed
  qed
  have inj: "inj_on endpoints (snd ` set ?m2)"
  proof (rule inj_onI)
    fix x y assume x: "x \<in> snd ` set ?m2" and y: "y \<in> snd ` set ?m2"
      and eq: "endpoints x = endpoints y"
    have inj0: "inj_on endpoints (snd ` set m)" using ok by (simp add: graph_ok_def)
    show "x = y"
      using old [OF x] old [OF y] eq ends inj0 by (auto dest: inj_onD)
  qed
  show ?thesis unfolding graph_ok_def using d2 keys inj by simp
qed

lemma unique_pairs_other_pairs:
  assumes "unique_pairs ts" and "endpoints N = {f, t}"
  shows "unique_pairs (other_pairs f t ts @ [N])"
proof -
  have "distinct (map endpoints (other_pairs f t ts))"
    using assms(1) by (simp add: unique_pairs_def other_pairs_def distinct_map_filter)
  moreover have "endpoints N \<notin> endpoints ` set (other_pairs f t ts)"
    unfolding assms(2) by (auto simp: other_pairs_def endpoints_def doubleton_eq_iff)
  ultimately show ?thesis by (simp add: unique_pairs_def)
qed

lemma unique_pairs_filter: "unique_pairs ts \<Longrightarrow> unique_pairs (other_pairs f t ts)"
  by (simp add: unique_pairs_def other_pairs_def distinct_map_filter)

lemma state_ok_step: "state_ok s \<Longrightarrow> state_ok (step s op)"
proof (cases op)
  case (AddTransition a b ty opts u n)
  assume ok: "state_ok s"
  show ?thesis
  proof (cases "TRANSITION_TYPES_at (toUpperCase ty)")
    case None
    then show ?thesis using ok AddTransition by (simp add: addTransition_def)
  next
    case (Some tt)
    then show ?thesis using ok AddTransition
      by (simp add: addTransition_def state_ok_def getStoredTransitions_def Let_def
          graph_ok_set_both endpoints_def)
  qed
next
  case (RemoveTransition c)
  assume ok: "state_ok s"
  then show ?thesis using RemoveTransition
    by (auto simp: removeTransition_def state_ok_def getStoredTransitions_def graph_ok_delete
        split: option.splits)
next
  case (SaveTransitionToStore a b ty d u n)
  assume ok: "state_ok s"
  show ?thesis
  proof (cases "store s")
    case None
    then show ?thesis using ok SaveTransitionToStore by (simp add: saveTransitionToStore_def)
  next
    case (Some st)
    show ?thesis
    proof (cases "project st")
      case None
      then show ?thesis using ok Some SaveTransitionToStore by (simp add: saveTransitionToStore_def)
    next
      case (Some p)
      have u: "unique_pairs (case transitions p of None \<Rightarrow> [] | Some ts \<Rightarrow> ts)"
        using ok \<open>store s = Some st\<close> Some by (simp add: state_ok_def getStoredTransitions_def)
      show ?thesis using ok \<open>store s = Some st\<close> Some SaveTransitionToStore u
        by (simp add: saveTransitionToStore_def state_ok_def getStoredTransitions_def Let_def
            graph_ok_set_both unique_pairs_other_pairs endpoints_def)
    qed
  qed
next
  case (RemoveTransitionFromStore a b)
  assume ok: "state_ok s"
  then show ?thesis using RemoveTransitionFromStore
    by (auto simp: removeTransitionFromStore_def state_ok_def getStoredTransitions_def
        graph_ok_delete unique_pairs_filter split: option.splits)
qed

lemma state_ok_run: "state_ok s \<Longrightarrow> state_ok (run_ops s ops)"
  unfolding run_ops_def by (induction ops arbitrary: s) (simp_all add: state_ok_step)

lemma graph_ok_instances: "graph_ok m \<Longrightarrow> unique_pairs (instances m)"
  by (simp add: graph_ok_def unique_pairs_def instances_def Map_values_def distinct_map)

text \<open>
  C6. Starting from an empty graph (an empty manager map and no stored transitions), after
  any sequence of \<open>addTransition\<close>, \<open>removeTransition\<close>, \<open>saveTransitionToStore\<close> and
  \<open>removeTransitionFromStore\<close> calls, in any order and whether or not a call raises, no two
  instances held by the manager's map share their unordered endpoint pair, and no two
  entries of the store's transitions list do.
\<close>

theorem unique_unordered_pairs:
  assumes "manager s0 = []" and "getStoredTransitions s0 = []"
  shows "unique_pairs (instances (manager (run_ops s0 ops))) \<and>
         unique_pairs (getStoredTransitions (run_ops s0 ops))"
proof -
  have "state_ok s0" using assms by (simp add: state_ok_def graph_ok_empty unique_pairs_def)
  then have "state_ok (run_ops s0 ops)" by (rule state_ok_run)
  then show ?thesis by (simp add: state_ok_def graph_ok_instances)
qed

text \<open>An instance of C6: a sequence that mixes the four calls and reuses endpoints.\<close>

theorem unique_unordered_pairs_witness:
  "manager (empty_graph (Some (single_track_store []))) = [] \<and>
   getStoredTransitions (empty_graph (Some (single_track_store []))) = [] \<and>
   unique_pairs (instances (manager (run_ops (empty_graph (Some (single_track_store [])))
       [AddTransition ''A'' ''B'' ''crossfade'' [] 1 0,
        SaveTransitionToStore ''B'' ''A'' ''blur'' None 2 0,
        SaveTransitionToStore ''B'' ''C'' ''blur'' None 3 0,
        RemoveTransition ''C'',
        RemoveTransitionFromStore ''A'' ''B'']))) \<and>
   unique_pairs (getStoredTransitions (run_ops (empty_graph (Some (single_track_store [])))
       [AddTransition ''A'' ''B'' ''crossfade'' [] 1 0,
        SaveTransitionToStore ''B'' ''A'' ''blur'' None 2 0,
        SaveTransitionToStore ''B'' ''C'' ''blur'' None 3 0,
        RemoveTransition ''C'',
        RemoveTransitionFromStore ''A'' ''B'']))"
proof -
  have a: "manager (empty_graph (Some (single_track_store []))) = []"
    by (simp add: empty_graph_def)
  have b: "getStoredTransitions (empty_graph (Some (single_track_store []))) = []"
    by (simp add: empty_graph_def getStoredTransitions_def single_track_store_def)
  show ?thesis using unique_unordered_pairs [OF a b] a b by simp
qed


section \<open>Adding a transition that shares an endpoint\<close>

lemma find_append_none: "find P xs = None \<Longrightarrow> find P (xs @ ys) = find P ys"
  by (induction xs) (auto split: if_splits)

lemma find_between_other_pairs:
  "find (\<lambda>t. fromClipId t = f \<and> toClipId t = t') (other_pairs f t' ts) = None"
  by (auto simp: find_None_iff other_pairs_def)

lemma find_between_filtered:
  "find (\<lambda>t. fromClipId t = f \<and> toClipId t = t') (other_pairs x y (other_pairs f t' ts)) = None"
  by (auto simp: find_None_iff other_pairs_def)

lemma other_pairs_append: "other_pairs f t (xs @ ys) = other_pairs f t xs @ other_pairs f t ys"
  by (simp add: other_pairs_def)

lemma resolve_crossfade:
  "TRANSITION_TYPES_at (toUpperCase ''crossfade'') =
     Some (mk_type ''crossfade'' ''Crossfade'' ''fade'' 1.0 [''duration''])"
  by (simp add: TRANSITION_TYPES_at_def TRANSITION_TYPES_def toUpperCase_def toUpperChar_def)

lemma resolve_blur:
  "TRANSITION_TYPES_at (toUpperCase ''blur'') =
     Some (mk_type ''blur'' ''Blur'' ''effect'' 0.8 [''duration'', ''blurAmount''])"
  by (simp add: TRANSITION_TYPES_at_def TRANSITION_TYPES_def toUpperCase_def toUpperChar_def)

text \<open>
  C1, as amended. After \<open>add(A, B, t1)\<close> then \<open>add(B, C, t2)\<close> with \<open>A \<noteq> C\<close>: in the manager's
  map, \<open>get(B)\<close> and \<open>get(C)\<close> return the \<open>t2\<close> instance. In the store, \<open>saveTransitionToStore\<close>
  removes only an instance on the same unordered pair, so the list keeps the instance on
  \<open>(A, B)\<close> beside the new one: \<open>getTransitionBetween(B, C)\<close> returns the \<open>t2\<close> instance and
  \<open>getTransitionBetween(A, B)\<close> still returns the \<open>t1\<close> instance.
\<close>

theorem add_sharing_endpoint:
  assumes s: "store s = Some st" and p: "project st = Some p" and ac: "a \<noteq> c"
    and r1: "TRANSITION_TYPES_at (toUpperCase ty1) = Some tt1"
    and r2: "TRANSITION_TYPES_at (toUpperCase ty2) = Some tt2"
  shows
    "(let t2 = \<lparr>tid = u2, fromClipId = b, toClipId = c, ttype = ty2,
                duration = or_default (options_duration o2) (Fin (defaultDuration tt2)),
                parameters = Some o2, createdAt = n2\<rparr>;
          m2 = manager (run_ops s [AddTransition a b ty1 o1 u1 n1,
                                   AddTransition b c ty2 o2 u2 n2])
      in getTransition m2 b = Some t2 \<and> getTransition m2 c = Some t2) \<and>
     (let g1 = \<lparr>tid = u1, fromClipId = a, toClipId = b, ttype = ty1,
                duration = or_default d1 (Fin 1), parameters = None, createdAt = n1\<rparr>;
          g2 = \<lparr>tid = u2, fromClipId = b, toClipId = c, ttype = ty2,
                duration = or_default d2 (Fin 1), parameters = None, createdAt = n2\<rparr>;
          s2 = run_ops s [SaveTransitionToStore a b ty1 d1 u1 n1,
                          SaveTransitionToStore b c ty2 d2 u2 n2]
      in getTransition (manager s2) b = Some g2 \<and> getTransition (manager s2) c = Some g2 \<and>
         getTransitionBetween s2 b c = Some g2 \<and>
         getTransitionBetween s2 a b = Some g1)"
proof
  show "let t2 = \<lparr>tid = u2, fromClipId = b, toClipId = c, ttype = ty2,
                duration = or_default (options_duration o2) (Fin (defaultDuration tt2)),
                parameters = Some o2, createdAt = n2\<rparr>;
          m2 = manager (run_ops s [AddTransition a b ty1 o1 u1 n1,
                                   AddTransition b c ty2 o2 u2 n2])
      in getTransition m2 b = Some t2 \<and> getTransition m2 c = Some t2"
    using r1 r2
    by (simp add: run_ops_def addTransition_def Let_def getTransition_def Map_get_set)
  show "let g1 = \<lparr>tid = u1, fromClipId = a, toClipId = b, ttype = ty1,
                duration = or_default d1 (Fin 1), parameters = None, createdAt = n1\<rparr>;
          g2 = \<lparr>tid = u2, fromClipId = b, toClipId = c, ttype = ty2,
                duration = or_default d2 (Fin 1), parameters = None, createdAt = n2\<rparr>;
          s2 = run_ops s [SaveTransitionToStore a b ty1 d1 u1 n1,
                          SaveTransitionToStore b c ty2 d2 u2 n2]
      in getTransition (manager s2) b = Some g2 \<and> getTransition (manager s2) c = Some g2 \<and>
         getTransitionBetween s2 b c = Some g2 \<and>
         getTransitionBetween s2 a b = Some g1"
    using s p ac
    by (simp add: run_ops_def saveTransitionToStore_def Let_def getTransition_def Map_get_set
        getTransitionBetween_def getStoredTransitions_def other_pairs_append
        find_append_none find_between_other_pairs find_between_filtered)
       (auto simp: other_pairs_def)
qed

text \<open>An instance of the amended C1, with clips A, B, C and the types crossfade and blur.\<close>

theorem add_sharing_endpoint_witness:
  "(let m2 = manager (run_ops (empty_graph (Some (single_track_store [])))
                [AddTransition ''A'' ''B'' ''crossfade'' [] 1 0,
                 AddTransition ''B'' ''C'' ''blur'' [] 2 0])
    in map_option tid (getTransition m2 ''B'') = Some 2 \<and>
       map_option tid (getTransition m2 ''C'') = Some 2) \<and>
   (let s2 = run_ops (empty_graph (Some (single_track_store [])))
                [SaveTransitionToStore ''A'' ''B'' ''crossfade'' (Some (Fin 1)) 1 0,
                 SaveTransitionToStore ''B'' ''C'' ''blur'' (Some (Fin 0.8)) 2 0]
    in map_option tid (getTransition (manager s2) ''B'') = Some 2 \<and>
       map_option tid (getTransitionBetween s2 ''B'' ''C'') = Some 2 \<and>
       map_option tid (getTransitionBetween s2 ''A'' ''B'') = Some 1)"
  using add_sharing_endpoint
      [where s = "empty_graph (Some (single_track_store []))" and st = "single_track_store []"
      and p = "\<lparr>tracks = Some [\<lparr>clips = Some []\<rparr>], transitions = None\<rparr>"
      and a = "''A''" and b = "''B''" and c = "''C''" and ?ty1.0 = "''crossfade''" and ?ty2.0 = "''blur''"
      and ?o1.0 = "[]" and ?o2.0 = "[]" and ?u1.0 = 1 and ?u2.0 = 2 and ?n1.0 = 0 and ?n2.0 = 0
      and ?d1.0 = "Some (Fin 1)" and ?d2.0 = "Some (Fin 0.8)", OF _ _ _ resolve_crossfade resolve_blur]
  by (simp add: empty_graph_def single_track_store_def Let_def)

text \<open>
  C1 as the claim states it fails: after the two adds on A, B, C, from an empty graph,
  \<open>getTransitionBetween(A, B)\<close> returns the first instance (the one with id 1) and not none,
  and a lookup by A in the manager's map returns that instance too, whether the map was
  written by \<open>saveTransitionToStore\<close> or by \<open>addTransition\<close>.
\<close>

theorem add_sharing_endpoint_counterexample:
  "map_option tid (getTransitionBetween (run_ops (empty_graph (Some (single_track_store [])))
       [SaveTransitionToStore ''A'' ''B'' ''crossfade'' (Some (Fin 1)) 1 0,
        SaveTransitionToStore ''B'' ''C'' ''blur'' (Some (Fin 0.8)) 2 0]) ''A'' ''B'') = Some 1 \<and>
   map_option tid (getTransition (manager (run_ops (empty_graph (Some (single_track_store [])))
       [SaveTransitionToStore ''A'' ''B'' ''crossfade'' (Some (Fin 1)) 1 0,
        SaveTransitionToStore ''B'' ''C'' ''blur'' (Some (Fin 0.8)) 2 0])) ''A'') = Some 1 \<and>
   map_option tid (getTransition (manager (run_ops (empty_graph None)
       [AddTransition ''A'' ''B'' ''crossfade'' [] 1 0,
        AddTransition ''B'' ''C'' ''blur'' [] 2 0])) ''A'') = Some 1"
  by (simp add: run_ops_def empty_graph_def single_track_store_def saveTransitionToStore_def
      addTransition_def resolve_crossfade resolve_blur Let_def
      getTransition_def Map_get_def getTransitionBetween_def getStoredTransitions_def
      other_pairs_def store_hooks_def)


section \<open>Export and import of the manager's map\<close>

text \<open>
  C9. The claim: for every reachable state of the manager's map,
  \<open>importTransitions(exportTransitions())\<close> restores a map equal to the original. After
  \<open>add(P, Q)\<close>, \<open>add(Q, R)\<close>, \<open>add(P, Q)\<close> the map holds the third instance under P and Q and
  the second instance under R only. The export lists the values in key order P, Q, R; the
  import sets both endpoint keys of each, so the second instance, coming last, takes the
  key Q back: the lookup by Q gives instance 3 before the round trip and instance 2 after.
\<close>

theorem import_export_changes_lookup:
  "map_option tid (getTransition (manager (run_ops (empty_graph None)
       [AddTransition ''P'' ''Q'' ''crossfade'' [] 1 0,
        AddTransition ''Q'' ''R'' ''crossfade'' [] 2 0,
        AddTransition ''P'' ''Q'' ''crossfade'' [] 3 0])) ''Q'') = Some 3 \<and>
   map_option tid (getTransition (importTransitions [] (exportTransitions (manager
     (run_ops (empty_graph None)
       [AddTransition ''P'' ''Q'' ''crossfade'' [] 1 0,
        AddTransition ''Q'' ''R'' ''crossfade'' [] 2 0,
        AddTransition ''P'' ''Q'' ''crossfade'' [] 3 0])))) ''Q'') = Some 2"
  by (simp add: run_ops_def empty_graph_def addTransition_def resolve_crossfade Let_def
      getTransition_def Map_get_def importTransitions_def exportTransitions_def Map_values_def)


section \<open>Requested durations\<close>


lemma findClipInProject_project:
  "findClipInProject clipId st = Some r \<Longrightarrow> \<exists>p. project st = Some p"
  by (cases "project st") (simp_all add: findClipInProject_def)

text \<open>What \<open>addTransitionToProject\<close> leaves in the list when the clip has a successor.\<close>

lemma addTransitionToProject_adds:
  assumes "findClipInProject clipId st = Some (c, tr, Some nx)"
  shows "store_transitions (fst (addTransitionToProject clipId ty opts st n now)) =
     filter (\<lambda>t. \<not> (fromClipId t = clipId \<or> toClipId t = clipId)) (store_transitions st) @
     [\<lparr>tid = n, fromClipId = clipId, toClipId = clip_id nx, ttype = ty,
       duration = Math_min (or_default (requested_duration opts) (Fin 1))
                    (half (Math_min (clip_duration c) (clip_duration nx))),
       parameters = Some (case opts of None \<Rightarrow> [] | Some os \<Rightarrow> os), createdAt = now\<rparr>]"
proof -
  obtain p where p: "project st = Some p"
    using findClipInProject_project [OF assms] by blast
  show ?thesis using assms p
    by (simp add: addTransitionToProject_def store_transitions_def Let_def)
qed

lemma find_A_of_4_and_1:
  "findClipInProject ''A''
     (single_track_store [\<lparr>clip_id = ''A'', clip_duration = Fin 4\<rparr>,
                          \<lparr>clip_id = ''B'', clip_duration = Fin 1\<rparr>]) =
   Some (\<lparr>clip_id = ''A'', clip_duration = Fin 4\<rparr>,
         \<lparr>clips = Some [\<lparr>clip_id = ''A'', clip_duration = Fin 4\<rparr>,
                        \<lparr>clip_id = ''B'', clip_duration = Fin 1\<rparr>]\<rparr>,
         Some \<lparr>clip_id = ''B'', clip_duration = Fin 1\<rparr>)"
  by (simp add: findClipInProject_def single_track_store_def)




text \<open>
  C5. The claim: wherever a transition duration is set, the stored duration is
  \<open>min(requested, min(fromClip.duration, toClip.duration) / 2)\<close>, so that 3s requested
  between clips of 4s and 1s is stored as 0.5s. \<open>saveTransitionToStore\<close> stores
  \<open>duration || 1.0\<close> and never looks at the clips: on a store whose track holds a clip A of
  4s and a clip B of 1s, a request of 3s between A and B is returned, and kept in the
  store's list, with duration 3. \<open>validateTransitionDuration\<close> gives 0.5 for the same
  numbers, and \<open>addTransitionToProject\<close> stores 0.5 for the same request.
\<close>

theorem saveTransitionToStore_stores_unclamped:
  "(case saveTransitionToStore
           (empty_graph (Some (single_track_store
              [\<lparr>clip_id = ''A'', clip_duration = Fin 4\<rparr>,
               \<lparr>clip_id = ''B'', clip_duration = Fin 1\<rparr>])))
           ''A'' ''B'' ''crossfade'' (Some (Fin 3)) 1 0 of
      Inl e \<Rightarrow> None
    | Inr r \<Rightarrow> map_option duration (fst r)) = Some (Fin 3) \<and>
   map duration (getStoredTransitions (run_ops
       (empty_graph (Some (single_track_store
          [\<lparr>clip_id = ''A'', clip_duration = Fin 4\<rparr>,
           \<lparr>clip_id = ''B'', clip_duration = Fin 1\<rparr>])))
       [SaveTransitionToStore ''A'' ''B'' ''crossfade'' (Some (Fin 3)) 1 0])) = [Fin 3] \<and>
   validateTransitionDuration (Fin 4) (Fin 1) (Fin 3) = Fin 0.5 \<and>
   duration (last (store_transitions (fst (addTransitionToProject ''A'' ''crossfade''
      (Some [(''duration'', Fin 3)])
      (single_track_store [\<lparr>clip_id = ''A'', clip_duration = Fin 4\<rparr>,
                           \<lparr>clip_id = ''B'', clip_duration = Fin 1\<rparr>]) 0 0)))) = Fin 0.5"
proof -
  have a: "(case saveTransitionToStore
           (empty_graph (Some (single_track_store
              [\<lparr>clip_id = ''A'', clip_duration = Fin 4\<rparr>,
               \<lparr>clip_id = ''B'', clip_duration = Fin 1\<rparr>])))
           ''A'' ''B'' ''crossfade'' (Some (Fin 3)) 1 0 of
      Inl e \<Rightarrow> None
    | Inr r \<Rightarrow> map_option duration (fst r)) = Some (Fin 3)"
    by (simp add: saveTransitionToStore_def empty_graph_def single_track_store_def Let_def)
  have b: "map duration (getStoredTransitions (run_ops
       (empty_graph (Some (single_track_store
          [\<lparr>clip_id = ''A'', clip_duration = Fin 4\<rparr>,
           \<lparr>clip_id = ''B'', clip_duration = Fin 1\<rparr>])))
       [SaveTransitionToStore ''A'' ''B'' ''crossfade'' (Some (Fin 3)) 1 0])) = [Fin 3]"
    by (simp add: run_ops_def saveTransitionToStore_def empty_graph_def single_track_store_def
        getStoredTransitions_def other_pairs_def Let_def)
  have c: "validateTransitionDuration (Fin 4) (Fin 1) (Fin 3) = Fin 0.5"
    by (simp add: validateTransitionDuration_def Let_def)
  have d: "duration (last (store_transitions (fst (addTransitionToProject ''A'' ''crossfade''
      (Some [(''duration'', Fin 3)])
      (single_track_store [\<lparr>clip_id = ''A'', clip_duration = Fin 4\<rparr>,
                           \<lparr>clip_id = ''B'', clip_duration = Fin 1\<rparr>]) 0 0)))) = Fin 0.5"
    using addTransitionToProject_adds [OF find_A_of_4_and_1,
        of "''crossfade''" "Some [(''duration'', Fin 3)]" 0 0]
    by (simp add: requested_duration_def options_duration_def)
  show ?thesis using a b c d by blast
qed


section \<open>The poll\<close>

text \<open>
  C7. For every state of the monitor and of the store, a second poll tick right after a
  first one changes nothing: the store, the queue, the stored snapshot, the UUID counter and
  the log of effects (hook calls, notifications, timers, the "topology changed" timer among
  them) are what the first tick left. The snapshot the second tick computes is the one the
  first tick stored.
\<close>

theorem pollTick_idempotent:
  "pollTick (pollTick w) = pollTick w \<and>
   (case editorStore (pollTick w) of
      None \<Rightarrow> True
    | Some st \<Rightarrow> lastTrackSnapshot (pollTick w) = Some (track_snapshot st))"
proof (cases "editorStore w")
  case None
  then show ?thesis by (simp add: pollTick_def)
next
  case (Some st)
  obtain st' n es where f: "flush (pendingTransitions w) st (uuidCounter w) (clock w) = (st', n, es)"
    by (cases "flush (pendingTransitions w) st (uuidCounter w) (clock w)")
  show ?thesis using Some f
    by (simp add: pollTick_def Let_def)
qed

text \<open>
  C4, as amended. Requests queued while there is no store are replayed by the first poll
  tick that finds one, in the order they were queued, and the queue is empty afterwards.
  Each replayed request first drops from the store's list every instance that touches its
  own clip. So two requests on the clips A and C of a track A, B, C, D leave both
  transitions in the list, in the order queued; two requests on the clips A and B of a
  track A, B, C leave only the second one, from B to C.
\<close>

theorem queue_replay:
  assumes "distinct [a, b, c, d]"
  shows
   "(let w = handleTransition (handleTransition new_monitor a ty1 o1) c ty2 o2;
         w' = pollTick (w\<lparr>editorStore := Some (single_track_store
                [\<lparr>clip_id = a, clip_duration = da\<rparr>, \<lparr>clip_id = b, clip_duration = db\<rparr>,
                 \<lparr>clip_id = c, clip_duration = dc\<rparr>, \<lparr>clip_id = d, clip_duration = dd\<rparr>])\<rparr>)
     in pendingTransitions w' = [] \<and>
        (case editorStore w' of None \<Rightarrow> [] | Some st \<Rightarrow> map edge (store_transitions st)) =
          [(a, b, ty1), (c, d, ty2)]) \<and>
    (let w = handleTransition (handleTransition new_monitor a ty1 o1) b ty2 o2;
         w' = pollTick (w\<lparr>editorStore := Some (single_track_store
                [\<lparr>clip_id = a, clip_duration = da\<rparr>, \<lparr>clip_id = b, clip_duration = db\<rparr>,
                 \<lparr>clip_id = c, clip_duration = dc\<rparr>])\<rparr>)
     in pendingTransitions w' = [] \<and>
        (case editorStore w' of None \<Rightarrow> [] | Some st \<Rightarrow> map edge (store_transitions st)) =
          [(b, c, ty2)])"
  using assms
  by (simp add: pollTick_def handleTransition_def new_monitor_def single_track_store_def
      addTransitionToProject_def findClipInProject_def store_transitions_def Let_def edge_def
      store_hooks_def)

text \<open>An instance of the amended C4: a crossfade on A and a wipe on C of the track A, B, C, D.\<close>

theorem queue_replay_witness:
  "distinct [''A'', ''B'', ''C'', ''D''] \<and>
   (let w = handleTransition (handleTransition new_monitor ''A'' ''crossfade'' None)
              ''C'' ''wipeLeft'' None;
        w' = pollTick (w\<lparr>editorStore := Some (single_track_store
                [\<lparr>clip_id = ''A'', clip_duration = Fin 4\<rparr>, \<lparr>clip_id = ''B'', clip_duration = Fin 4\<rparr>,
                 \<lparr>clip_id = ''C'', clip_duration = Fin 4\<rparr>, \<lparr>clip_id = ''D'', clip_duration = Fin 4\<rparr>])\<rparr>)
    in pendingTransitions w' = [] \<and>
       (case editorStore w' of None \<Rightarrow> [] | Some st \<Rightarrow> map edge (store_transitions st)) =
         [(''A'', ''B'', ''crossfade''), (''C'', ''D'', ''wipeLeft'')])"
proof -
  have d: "distinct [''A'', ''B'', ''C'', ''D'']" by simp
  show ?thesis
    using queue_replay [OF d, where ?ty1.0 = "''crossfade''" and ?o1.0 = None
        and ?ty2.0 = "''wipeLeft''" and ?o2.0 = None
        and da = "Fin 4" and db = "Fin 4" and dc = "Fin 4" and dd = "Fin 4"] d
    by simp
qed

text \<open>
  C4 as the claim states it fails: queue a fade on A and then a wipeLeft on B while there
  is no store; after the first tick that finds the store, with the track A, B, C, the
  list holds the transition from B to C only.
\<close>

theorem queue_replay_counterexample:
  "(case editorStore (pollTick
       ((handleTransition (handleTransition new_monitor ''A'' ''fade'' None) ''B'' ''wipeLeft'' None)
          \<lparr>editorStore := Some (single_track_store
             [\<lparr>clip_id = ''A'', clip_duration = Fin 4\<rparr>, \<lparr>clip_id = ''B'', clip_duration = Fin 4\<rparr>,
              \<lparr>clip_id = ''C'', clip_duration = Fin 4\<rparr>])\<rparr>)) of
      None \<Rightarrow> []
    | Some st \<Rightarrow> map edge (store_transitions st)) = [(''B'', ''C'', ''wipeLeft'')]"
  by (simp add: pollTick_def handleTransition_def new_monitor_def single_track_store_def
      addTransitionToProject_def findClipInProject_def store_transitions_def Let_def edge_def
      store_hooks_def)

end
